theory Spec2Isabelle
  imports Complex_Main
begin

section \<open>JavaScript values\<close>

text \<open>
  A JavaScript number is a finite value, one of the two infinities, or NaN. Finite values
  are taken as exact reals: rounding to 64-bit floating point, overflow of a finite
  computation to an infinity and the sign of zero are outside the model.
\<close>

datatype jsnum = NaN | PInf | NInf | Fin real

text \<open>
  What a spreadsheet cell or a Row Record field can hold (\<open>any\<close> in the source):
  \<open>undefined\<close>, \<open>null\<close>, a boolean, a number or a string. Strings are lists of
  8-bit characters.
\<close>

datatype cell = Undefined | Null | Bool bool | Num jsnum | Str string

text \<open>
  A Row Record is a plain object (made by \<open>{}\<close>) used as a dictionary from column name
  to cell. It is an association list in insertion order with distinct keys. Writing an
  ordinary property, \<open>obj[k] = v\<close>, replaces the value of a key that is present and
  appends a new key otherwise. The key \<open>__proto__\<close> is not ordinary: every plain object
  inherits an accessor of that name, and an assignment \<open>obj['__proto__'] = v\<close> runs the
  inherited setter, which creates no property (a boolean, a number or a string, which is
  all the loader stores, is ignored by the setter). \<open>obj[k]\<close> of a key that is absent is
  taken as \<open>undefined\<close>.
\<close>

type_synonym row_record = "(string \<times> cell) list"

fun obj_put :: "row_record \<Rightarrow> string \<Rightarrow> cell \<Rightarrow> row_record" where
  "obj_put [] k v = [(k, v)]"
| "obj_put ((k', v') # kvs) k v =
     (if k' = k then (k, v) # kvs else (k', v') # obj_put kvs k v)"

definition obj_set :: "row_record \<Rightarrow> string \<Rightarrow> cell \<Rightarrow> row_record" where
  "obj_set obj k v = (if k = ''__proto__'' then obj else obj_put obj k v)"

definition obj_get :: "row_record \<Rightarrow> string \<Rightarrow> cell" where
  "obj_get obj k = (case map_of obj k of None \<Rightarrow> Undefined | Some v \<Rightarrow> v)"

text \<open>
  \<open>Object.keys(obj)\<close>: the keys of the object. The results below are stated per column,
  so the position that JavaScript gives to integer-like keys in the enumeration is not
  modelled.
\<close>

definition Object_keys :: "row_record \<Rightarrow> string list" where
  "Object_keys obj = map fst obj"

section \<open>JavaScript built-ins used by the source\<close>

subsection \<open>Text of a number, text of any value\<close>

definition digit_char :: "nat \<Rightarrow> char" where
  "digit_char d = ''0123456789'' ! d"

text \<open>
  The decimal text of a count, as a template literal gives it for \<open>index + 1\<close> and for
  \<open>data.length\<close>.
\<close>

fun string_of_nat :: "nat \<Rightarrow> string" where
  "string_of_nat n =
     (if n < 10 then [digit_char n] else string_of_nat (n div 10) @ [digit_char (n mod 10)])"

declare string_of_nat.simps [simp del]

text \<open>
  \<open>String(v)\<close>. The text of a finite number depends on its floating-point representation;
  it is the parameter \<open>num_text\<close> (the number-to-text conversion of the language), and
  everything below holds for any such conversion.
\<close>

fun js_String :: "(real \<Rightarrow> string) \<Rightarrow> cell \<Rightarrow> string" where
  "js_String num_text Undefined = ''undefined''"
| "js_String num_text Null = ''null''"
| "js_String num_text (Bool b) = (if b then ''true'' else ''false'')"
| "js_String num_text (Num NaN) = ''NaN''"
| "js_String num_text (Num PInf) = ''Infinity''"
| "js_String num_text (Num NInf) = ''-Infinity''"
| "js_String num_text (Num (Fin r)) = num_text r"
| "js_String num_text (Str s) = s"

text \<open>The conversion on whole numbers: an optional minus sign and the decimal digits.\<close>

definition int_text :: "real \<Rightarrow> string" where
  "int_text r = (if r < 0 then CHR ''-'' # string_of_nat (nat \<lfloor>- r\<rfloor>)
                 else string_of_nat (nat \<lfloor>r\<rfloor>))"

subsection \<open>White space and \<open>trim\<close>\<close>

text \<open>The white space and line terminator characters that fit in 8 bits.\<close>

definition is_ws :: "char \<Rightarrow> bool" where
  "is_ws c = (of_char c \<in> {9, 10, 11, 12, 13, 32, 160 :: nat})"

definition trim_start :: "string \<Rightarrow> string" where
  "trim_start s = dropWhile is_ws s"

definition String_trim :: "string \<Rightarrow> string" where
  "String_trim s = rev (dropWhile is_ws (rev (dropWhile is_ws s)))"

subsection \<open>Numeric literals in strings\<close>

definition is_digit :: "char \<Rightarrow> bool" where
  "is_digit c = (48 \<le> (of_char c :: nat) \<and> (of_char c :: nat) \<le> 57)"

definition digits_value :: "string \<Rightarrow> nat" where
  "digits_value ds = foldl (\<lambda>a c. 10 * a + (of_char c - 48)) 0 ds"

text \<open>An optional sign in front: the factor and the rest.\<close>

fun take_sign :: "string \<Rightarrow> real \<times> string" where
  "take_sign [] = (1, [])"
| "take_sign (c # cs) =
     (if c = CHR ''+'' then (1, cs) else if c = CHR ''-'' then (-1, cs) else (1, c # cs))"

text \<open>
  An exponent part in front (\<open>e\<close> or \<open>E\<close>, an optional sign, at least one digit): the
  power of ten as a factor and the rest. A text that does not start with a complete
  exponent part is left whole, with factor 1.
\<close>

definition take_exponent :: "string \<Rightarrow> real \<times> string" where
  "take_exponent s =
     (case s of
        [] \<Rightarrow> (1, s)
      | c # cs \<Rightarrow>
          (if c = CHR ''e'' \<or> c = CHR ''E'' then
             (let (sg, r) = take_sign cs; ds = takeWhile is_digit r
              in if ds = [] then (1, s)
                 else ((if sg < 0 then 1 / 10 ^ digits_value ds else 10 ^ digits_value ds),
                       dropWhile is_digit r))
           else (1, s)))"

text \<open>
  The longest prefix that is a \<open>StrDecimalLiteral\<close> (an optional sign, then
  \<open>Infinity\<close>, or digits with an optional fraction and exponent, or a fraction that
  starts with the dot): its value and the rest of the text; \<open>None\<close> when no prefix is
  one.
\<close>

definition parse_decimal :: "string \<Rightarrow> (jsnum \<times> string) option" where
  "parse_decimal s =
     (let (sg, r1) = take_sign s in
      if take 8 r1 = ''Infinity'' then Some ((if sg < 0 then NInf else PInf), drop 8 r1)
      else
        let d1 = takeWhile is_digit r1;
            r2 = dropWhile is_digit r1;
            (d2, r3) = (case r2 of
                          [] \<Rightarrow> ([], r2)
                        | c # cs \<Rightarrow> (if c = CHR ''.''
                                    then (takeWhile is_digit cs, dropWhile is_digit cs)
                                    else ([], r2)))
        in if d1 = [] \<and> d2 = [] then None
           else
             let (ex, r4) = take_exponent r3
             in Some (Fin (sg * (real (digits_value d1)
                                 + real (digits_value d2) / 10 ^ length d2) * ex), r4))"

text \<open>\<open>parseFloat\<close> of a string: leading white space is skipped; NaN when nothing parses.\<close>

definition parseFloat_str :: "string \<Rightarrow> jsnum" where
  "parseFloat_str s = (case parse_decimal (trim_start s) of None \<Rightarrow> NaN | Some (v, _) \<Rightarrow> v)"

text \<open>
  \<open>parseFloat(v)\<close> of any value parses the text of the value. The text of a number parses
  back to that number.
\<close>

fun parseFloat :: "cell \<Rightarrow> jsnum" where
  "parseFloat (Num n) = n"
| "parseFloat (Str s) = parseFloat_str s"
| "parseFloat (Bool b) = parseFloat_str (if b then ''true'' else ''false'')"
| "parseFloat Null = parseFloat_str ''null''"
| "parseFloat Undefined = parseFloat_str ''undefined''"

text \<open>The digits of a literal in radix 16, 8 or 2.\<close>

definition radix_digit :: "char \<Rightarrow> nat option" where
  "radix_digit c =
     (let n = (of_char c :: nat) in
      if 48 \<le> n \<and> n \<le> 57 then Some (n - 48)
      else if 97 \<le> n \<and> n \<le> 102 then Some (n - 87)
      else if 65 \<le> n \<and> n \<le> 70 then Some (n - 55)
      else None)"

definition radix_value :: "nat \<Rightarrow> string \<Rightarrow> nat option" where
  "radix_value b ds =
     (if ds \<noteq> [] \<and> list_all (\<lambda>c. case radix_digit c of None \<Rightarrow> False | Some d \<Rightarrow> d < b) ds
      then Some (foldl (\<lambda>a c. b * a + the (radix_digit c)) 0 ds)
      else None)"

definition parse_nondecimal :: "string \<Rightarrow> nat option" where
  "parse_nondecimal s =
     (case s of
        c0 # p # ds \<Rightarrow>
          (if c0 \<noteq> CHR ''0'' then None
           else if p = CHR ''x'' \<or> p = CHR ''X'' then radix_value 16 ds
           else if p = CHR ''o'' \<or> p = CHR ''O'' then radix_value 8 ds
           else if p = CHR ''b'' \<or> p = CHR ''B'' then radix_value 2 ds
           else None)
      | _ \<Rightarrow> None)"

text \<open>
  \<open>Number(s)\<close> of a string: white space at both ends is dropped; the empty text is 0;
  otherwise the whole text has to be one numeric literal.
\<close>

definition Number_str :: "string \<Rightarrow> jsnum" where
  "Number_str s =
     (let t = String_trim s in
      if t = [] then Fin 0
      else case parse_nondecimal t of
             Some n \<Rightarrow> Fin (real n)
           | None \<Rightarrow> (case parse_decimal t of
                        None \<Rightarrow> NaN
                      | Some (v, rest) \<Rightarrow> if rest = [] then v else NaN))"

fun js_Number :: "cell \<Rightarrow> jsnum" where
  "js_Number Undefined = NaN"
| "js_Number Null = Fin 0"
| "js_Number (Bool b) = (if b then Fin 1 else Fin 0)"
| "js_Number (Num n) = n"
| "js_Number (Str s) = Number_str s"

text \<open>\<open>isNaN\<close> applied to a number, and the global \<open>isFinite\<close> applied to any value.\<close>

definition isNaN :: "jsnum \<Rightarrow> bool" where
  "isNaN n = (n = NaN)"

definition isFinite :: "cell \<Rightarrow> bool" where
  "isFinite v = (case js_Number v of Fin _ \<Rightarrow> True | _ \<Rightarrow> False)"

text \<open>\<open>a || b\<close> on numbers: NaN and zero are falsy.\<close>

definition js_or :: "jsnum \<Rightarrow> jsnum \<Rightarrow> jsnum" where
  "js_or a b = (if a = NaN \<or> a = Fin 0 then b else a)"

section \<open>Workflow Controller (App.tsx)\<close>

text \<open>The field \<open>values\<close> is written \<open>chart_values\<close>.\<close>

record ChartData =
  labels :: "string list"
  chart_values :: "jsnum list"
  categories :: "string list option"

record ChartConfig =
  xColumn :: string
  yColumn :: string
  colorScheme :: string
  showGrid :: bool
  chartHeight :: jsnum

datatype step = Upload | Preview | Chart

record App =
  rawData :: "row_record list"
  chartData :: "ChartData option"
  chartConfig :: ChartConfig
  currentStep :: step

text \<open>The four \<open>useState\<close> initial values of \<open>App\<close>.\<close>

definition initialApp :: App where
  "initialApp =
     \<lparr>rawData = [],
      chartData = None,
      chartConfig = \<lparr>xColumn = '''', yColumn = '''', colorScheme = ''blue'',
                     showGrid = True, chartHeight = Fin 10\<rparr>,
      currentStep = Upload\<rparr>"

definition handleFileUpload :: "row_record list \<Rightarrow> App \<Rightarrow> App" where
  "handleFileUpload data app = app\<lparr>rawData := data, currentStep := Preview\<rparr>"

definition handleDataProcess :: "ChartData \<Rightarrow> ChartConfig \<Rightarrow> App \<Rightarrow> App" where
  "handleDataProcess processedData config app =
     app\<lparr>chartData := Some processedData, chartConfig := config, currentStep := Chart\<rparr>"

definition handleBackToUpload :: "App \<Rightarrow> App" where
  "handleBackToUpload app = app\<lparr>rawData := [], chartData := None, currentStep := Upload\<rparr>"

definition handleBackToPreview :: "App \<Rightarrow> App" where
  "handleBackToPreview app = app\<lparr>chartData := None, currentStep := Preview\<rparr>"

text \<open>\<open>onConfigChange\<close> of the chart controls is \<open>setChartConfig\<close>.\<close>

definition setChartConfig :: "ChartConfig \<Rightarrow> App \<Rightarrow> App" where
  "setChartConfig config app = app\<lparr>chartConfig := config\<rparr>"

section \<open>Chart controls (ChartControls)\<close>

text \<open>
  \<open>Partial<ChartConfig>\<close>: every field optional. \<open>{ ...config, ...updates }\<close> takes each
  field from \<open>updates\<close> when it is there and from \<open>config\<close> otherwise.
\<close>

record PartialChartConfig =
  p_xColumn :: "string option"
  p_yColumn :: "string option"
  p_colorScheme :: "string option"
  p_showGrid :: "bool option"
  p_chartHeight :: "jsnum option"

definition no_updates :: PartialChartConfig where
  "no_updates = \<lparr>p_xColumn = None, p_yColumn = None, p_colorScheme = None,
                  p_showGrid = None, p_chartHeight = None\<rparr>"

definition spread :: "ChartConfig \<Rightarrow> PartialChartConfig \<Rightarrow> ChartConfig" where
  "spread config updates =
     \<lparr>xColumn = (case p_xColumn updates of None \<Rightarrow> xColumn config | Some v \<Rightarrow> v),
      yColumn = (case p_yColumn updates of None \<Rightarrow> yColumn config | Some v \<Rightarrow> v),
      colorScheme = (case p_colorScheme updates of None \<Rightarrow> colorScheme config | Some v \<Rightarrow> v),
      showGrid = (case p_showGrid updates of None \<Rightarrow> showGrid config | Some v \<Rightarrow> v),
      chartHeight = (case p_chartHeight updates of None \<Rightarrow> chartHeight config | Some v \<Rightarrow> v)\<rparr>"

text \<open>
  \<open>updateConfig\<close> with the props that \<open>App\<close> passes: \<open>config\<close> is the stored
  configuration and \<open>onConfigChange\<close> is \<open>setChartConfig\<close>.
\<close>

definition updateConfig :: "PartialChartConfig \<Rightarrow> App \<Rightarrow> App" where
  "updateConfig updates app = setChartConfig (spread (chartConfig app) updates) app"

text \<open>The three controls: the colour select, the height slider and the grid switch.\<close>

datatype reconfiguration = ColorSchemeChange string | HeightChange jsnum | GridChange bool

fun updates_of :: "reconfiguration \<Rightarrow> PartialChartConfig" where
  "updates_of (ColorSchemeChange v) = no_updates\<lparr>p_colorScheme := Some v\<rparr>"
| "updates_of (HeightChange v) = no_updates\<lparr>p_chartHeight := Some v\<rparr>"
| "updates_of (GridChange v) = no_updates\<lparr>p_showGrid := Some v\<rparr>"

definition reconfigure :: "reconfiguration \<Rightarrow> App \<Rightarrow> App" where
  "reconfigure ev app = updateConfig (updates_of ev) app"

section \<open>Tabular Loader and upload component (FileUpload.tsx)\<close>

text \<open>
  What is thrown inside the \<open>try\<close> block: an \<open>Error\<close> object with its message, or
  some other value.
\<close>

datatype thrown = ErrorObj string | OtherValue

text \<open>
  An array that \<open>sheet_to_json\<close> builds for one spreadsheet row may have holes (cells the
  sheet does not have): \<open>None\<close> is a hole. Reading a hole or an index past the end
  gives \<open>undefined\<close>.
\<close>

type_synonym sparse_row = "cell option list"

definition arr_get :: "sparse_row \<Rightarrow> nat \<Rightarrow> cell" where
  "arr_get row i =
     (if i < length row then (case row ! i of None \<Rightarrow> Undefined | Some c \<Rightarrow> c)
      else Undefined)"

text \<open>
  The spreadsheet library is outside the repository. A worksheet is represented by the
  array of row arrays that \<open>XLSX.utils.sheet_to_json(worksheet, { header: 1 })\<close> returns
  for it, and a workbook by its sheet names and its dictionary of sheets. For a sheet
  that is not there (\<open>undefined\<close>) \<open>sheet_to_json\<close> returns the empty array.
\<close>

type_synonym worksheet = "sparse_row list"

record workbook =
  SheetNames :: "string list"
  Sheets :: "(string \<times> worksheet) list"

definition sheet_to_json :: "worksheet option \<Rightarrow> sparse_row list" where
  "sheet_to_json ws = (case ws of None \<Rightarrow> [] | Some rows \<Rightarrow> rows)"

text \<open>
  \<open>workbook.SheetNames[0]\<close> and \<open>workbook.Sheets[worksheetName]\<close>. With no sheet name
  the index read gives \<open>undefined\<close>, which as a property key is the text
  \<open>undefined\<close>.
\<close>

definition worksheetName :: "workbook \<Rightarrow> string" where
  "worksheetName wb = (case SheetNames wb of [] \<Rightarrow> ''undefined'' | n # _ \<Rightarrow> n)"

definition first_worksheet :: "workbook \<Rightarrow> worksheet option" where
  "first_worksheet wb = map_of (Sheets wb) (worksheetName wb)"

text \<open>The callback of \<open>firstRow.map\<close>.\<close>

definition header_name :: "(real \<Rightarrow> string) \<Rightarrow> cell \<Rightarrow> nat \<Rightarrow> string" where
  "header_name num_text header index =
     (if header = Undefined \<or> header = Null \<or> header = Str ''''
      then ''Column_'' @ string_of_nat (index + 1)
      else String_trim (js_String num_text header))"

text \<open>\<open>map\<close> on an array with holes calls the callback on the elements and keeps the holes.\<close>

fun map_headers :: "(real \<Rightarrow> string) \<Rightarrow> sparse_row \<Rightarrow> nat \<Rightarrow> string option list" where
  "map_headers num_text [] index = []"
| "map_headers num_text (None # hs) index = None # map_headers num_text hs (Suc index)"
| "map_headers num_text (Some h # hs) index =
     Some (header_name num_text h index) # map_headers num_text hs (Suc index)"

definition headers_of :: "(real \<Rightarrow> string) \<Rightarrow> sparse_row \<Rightarrow> string option list" where
  "headers_of num_text firstRow = map_headers num_text firstRow 0"

text \<open>
  The filter on the data rows: \<open>row && row.some(cell => cell !== undefined && cell !==
  null && cell !== '')\<close>. A row is an array, which is truthy; \<open>some\<close> does not visit
  holes.
\<close>

definition has_content :: "sparse_row \<Rightarrow> bool" where
  "has_content row =
     list_ex (\<lambda>e. case e of None \<Rightarrow> False
                   | Some cell \<Rightarrow> cell \<noteq> Undefined \<and> cell \<noteq> Null \<and> cell \<noteq> Str '''') row"

text \<open>The value stored for column \<open>colIndex\<close> of a row.\<close>

definition cell_value :: "sparse_row \<Rightarrow> nat \<Rightarrow> cell" where
  "cell_value row colIndex =
     (let cellValue = arr_get row colIndex
      in if cellValue \<noteq> Undefined \<and> cellValue \<noteq> Null then cellValue else Str '''')"

text \<open>
  \<open>headers.forEach((header, colIndex) => { obj[header] = ... })\<close>, from column
  \<open>colIndex\<close> on; \<open>forEach\<close> does not visit holes.
\<close>

fun fill_columns :: "string option list \<Rightarrow> nat \<Rightarrow> sparse_row \<Rightarrow> row_record \<Rightarrow> row_record" where
  "fill_columns [] colIndex row obj = obj"
| "fill_columns (None # hs) colIndex row obj = fill_columns hs (Suc colIndex) row obj"
| "fill_columns (Some header # hs) colIndex row obj =
     fill_columns hs (Suc colIndex) row (obj_set obj header (cell_value row colIndex))"

definition row_to_obj :: "string option list \<Rightarrow> sparse_row \<Rightarrow> row_record" where
  "row_to_obj headers row = fill_columns headers 0 row []"

text \<open>\<open>data\<close>: the rows after the first (\<open>jsonData.slice(1)\<close>), filtered and converted.\<close>

definition convert_rows :: "string option list \<Rightarrow> sparse_row list \<Rightarrow> row_record list" where
  "convert_rows headers rows = map (row_to_obj headers) (filter has_content rows)"

text \<open>
  The body of the \<open>try\<close> block from the parsed rows on: \<open>Inl\<close> is a throw, \<open>Inr\<close> the
  Row Records handed to \<open>onFileUpload\<close>.
\<close>

definition load_rows :: "(real \<Rightarrow> string) \<Rightarrow> sparse_row list \<Rightarrow> thrown + row_record list" where
  "load_rows num_text jsonData =
     (case jsonData of
        [] \<Rightarrow> Inl (ErrorObj ''The file appears to be empty'')
      | firstRow # rows \<Rightarrow>
          (let headers = headers_of num_text firstRow;
               data = convert_rows headers rows
           in if length data = 0 then Inl (ErrorObj ''No valid data rows found in the file'')
              else Inr data))"

text \<open>
  The whole \<open>try\<close> block. Its input is how reading the file and \<open>XLSX.read\<close> end: with
  a throw, or with a workbook.
\<close>

definition try_block :: "(real \<Rightarrow> string) \<Rightarrow> thrown + workbook \<Rightarrow> thrown + row_record list" where
  "try_block num_text parsed =
     (case parsed of
        Inl err \<Rightarrow> Inl err
      | Inr wb \<Rightarrow> load_rows num_text (sheet_to_json (first_worksheet wb)))"

text \<open>The state of the upload component.\<close>

record FileUpload =
  isProcessing :: bool
  error :: "string option"
  success :: "string option"

definition initialFileUpload :: FileUpload where
  "initialFileUpload = \<lparr>isProcessing = False, error = None, success = None\<rparr>"

text \<open>\<open>err instanceof Error ? err.message : 'Failed to process file'\<close>\<close>

fun error_message :: "thrown \<Rightarrow> string" where
  "error_message (ErrorObj message) = message"
| "error_message OtherValue = ''Failed to process file''"

text \<open>
  \<open>processFile\<close>, on the state of the component and, through \<open>onFileUpload\<close> (which is
  \<open>handleFileUpload\<close>), on the state of \<open>App\<close>.
\<close>

definition processFile ::
  "(real \<Rightarrow> string) \<Rightarrow> thrown + workbook \<Rightarrow> FileUpload \<times> App \<Rightarrow> FileUpload \<times> App" where
  "processFile num_text parsed st =
     (let fu = (fst st)\<lparr>isProcessing := True, error := None, success := None\<rparr>;
          app = snd st
      in case try_block num_text parsed of
           Inr data \<Rightarrow>
             (fu\<lparr>success := Some (''Successfully loaded '' @ string_of_nat (length data)
                                   @ '' rows of data''),
                 isProcessing := False\<rparr>,
              handleFileUpload data app)
         | Inl err \<Rightarrow>
             (fu\<lparr>error := Some (error_message err), isProcessing := False\<rparr>, app))"

definition sampleData :: "row_record list" where
  "sampleData =
     [[(''Product'', Str ''Laptops''), (''Q1'', Num (Fin 120)), (''Q2'', Num (Fin 135)),
       (''Q3'', Num (Fin 148)), (''Q4'', Num (Fin 162))],
      [(''Product'', Str ''Smartphones''), (''Q1'', Num (Fin 200)), (''Q2'', Num (Fin 220)),
       (''Q3'', Num (Fin 195)), (''Q4'', Num (Fin 240))],
      [(''Product'', Str ''Tablets''), (''Q1'', Num (Fin 80)), (''Q2'', Num (Fin 75)),
       (''Q3'', Num (Fin 90)), (''Q4'', Num (Fin 85))],
      [(''Product'', Str ''Headphones''), (''Q1'', Num (Fin 150)), (''Q2'', Num (Fin 165)),
       (''Q3'', Num (Fin 180)), (''Q4'', Num (Fin 175))],
      [(''Product'', Str ''Smartwatches''), (''Q1'', Num (Fin 60)), (''Q2'', Num (Fin 70)),
       (''Q3'', Num (Fin 85)), (''Q4'', Num (Fin 95))],
      [(''Product'', Str ''Cameras''), (''Q1'', Num (Fin 45)), (''Q2'', Num (Fin 50)),
       (''Q3'', Num (Fin 55)), (''Q4'', Num (Fin 48))]]"

text \<open>
  A handler as the sequence of the calls it makes: the three state setters of the
  component and the \<open>onFileUpload\<close> prop (which is \<open>handleFileUpload\<close>).
\<close>

datatype call =
  SetIsProcessing bool | SetError "string option" | SetSuccess "string option"
  | OnFileUpload "row_record list"

fun do_call :: "FileUpload \<times> App \<Rightarrow> call \<Rightarrow> FileUpload \<times> App" where
  "do_call st (SetIsProcessing b) = ((fst st)\<lparr>isProcessing := b\<rparr>, snd st)"
| "do_call st (SetError e) = ((fst st)\<lparr>error := e\<rparr>, snd st)"
| "do_call st (SetSuccess m) = ((fst st)\<lparr>success := m\<rparr>, snd st)"
| "do_call st (OnFileUpload data) = (fst st, handleFileUpload data (snd st))"

definition run_calls :: "call list \<Rightarrow> FileUpload \<times> App \<Rightarrow> FileUpload \<times> App" where
  "run_calls cs st = foldl do_call st cs"

text \<open>The states after each call of a sequence, in order.\<close>

fun call_states :: "FileUpload \<times> App \<Rightarrow> call list \<Rightarrow> (FileUpload \<times> App) list" where
  "call_states st [] = []"
| "call_states st (c # cs) = do_call st c # call_states (do_call st c) cs"

text \<open>The calls of \<open>processFile\<close>, in the order of the source.\<close>

definition processFile_calls :: "(real \<Rightarrow> string) \<Rightarrow> thrown + workbook \<Rightarrow> call list" where
  "processFile_calls num_text parsed =
     [SetIsProcessing True, SetError None, SetSuccess None] @
     (case try_block num_text parsed of
        Inr data \<Rightarrow>
          [SetSuccess (Some (''Successfully loaded '' @ string_of_nat (length data)
                             @ '' rows of data'')),
           OnFileUpload data]
      | Inl err \<Rightarrow> [SetError (Some (error_message err))]) @
     [SetIsProcessing False]"

text \<open>The calls of \<open>loadSampleData\<close>: \<open>setSuccess\<close>, then \<open>onFileUpload\<close>.\<close>

definition loadSampleData_calls :: "call list" where
  "loadSampleData_calls =
     [SetSuccess (Some ''Sample data loaded successfully''), OnFileUpload sampleData]"

text \<open>
  A sequence of calls clears both notices first: every call that sets a notice comes
  after a \<open>setError(null)\<close> and a \<open>setSuccess(null)\<close> of the same sequence.
\<close>

fun clears_first_from :: "bool \<Rightarrow> bool \<Rightarrow> call list \<Rightarrow> bool" where
  "clears_first_from ec sc [] = True"
| "clears_first_from ec sc (SetError None # cs) = clears_first_from True sc cs"
| "clears_first_from ec sc (SetSuccess None # cs) = clears_first_from ec True cs"
| "clears_first_from ec sc (SetError (Some m) # cs) = (ec \<and> sc \<and> clears_first_from ec sc cs)"
| "clears_first_from ec sc (SetSuccess (Some m) # cs) = (ec \<and> sc \<and> clears_first_from ec sc cs)"
| "clears_first_from ec sc (SetIsProcessing b # cs) = clears_first_from ec sc cs"
| "clears_first_from ec sc (OnFileUpload data # cs) = clears_first_from ec sc cs"

definition clears_both_first :: "call list \<Rightarrow> bool" where
  "clears_both_first cs = clears_first_from False False cs"

text \<open>
  The two notices are rendered by \<open>{error && ...}\<close> and \<open>{success && ...}\<close>: a notice is
  on screen when its text is neither \<open>null\<close> nor empty.
\<close>

definition notice_shown :: "string option \<Rightarrow> bool" where
  "notice_shown n = (case n of None \<Rightarrow> False | Some text \<Rightarrow> text \<noteq> [])"

definition both_notices :: "FileUpload \<Rightarrow> bool" where
  "both_notices fu = (notice_shown (error fu) \<and> notice_shown (success fu))"

text \<open>
  What is on screen. \<open>App\<close> renders the upload component only while the stage is
  \<open>upload\<close>: \<open>mounted_upload\<close> is the state of the component when it is mounted and
  \<open>None\<close> when it is not. When the state updates of a handler have been applied, the
  component stays mounted with its new state if the stage is still \<open>upload\<close>; otherwise
  it is unmounted and its state is gone. A component that is mounted later starts from
  the initial state.
\<close>

record screen =
  mounted_upload :: "FileUpload option"
  app_state :: App

definition initial_screen :: screen where
  "initial_screen = \<lparr>mounted_upload = Some initialFileUpload, app_state = initialApp\<rparr>"

definition commit :: "FileUpload \<times> App \<Rightarrow> screen" where
  "commit st =
     \<lparr>mounted_upload = (if currentStep (snd st) = Upload then Some (fst st) else None),
      app_state = snd st\<rparr>"

text \<open>
  \<open>loadSampleData\<close>, the click handler of the sample button of the mounted component:
  its calls are applied in one update.
\<close>

definition loadSampleData :: "screen \<Rightarrow> screen" where
  "loadSampleData s =
     (case mounted_upload s of
        None \<Rightarrow> s
      | Some fu \<Rightarrow> commit (run_calls loadSampleData_calls (fu, app_state s)))"

text \<open>A file dropped on the mounted component: \<open>processFile\<close>, then what is on screen.\<close>

definition dropFile :: "(real \<Rightarrow> string) \<Rightarrow> thrown + workbook \<Rightarrow> screen \<Rightarrow> screen" where
  "dropFile num_text parsed s =
     (case mounted_upload s of
        None \<Rightarrow> s
      | Some fu \<Rightarrow> commit (processFile num_text parsed (fu, app_state s)))"

text \<open>A spreadsheet row with no content: every cell is a hole, undefined, null or empty text.\<close>

definition fully_blank :: "sparse_row \<Rightarrow> bool" where
  "fully_blank row =
     list_all (\<lambda>e. e = None \<or> e = Some Undefined \<or> e = Some Null \<or> e = Some (Str '''')) row"

section \<open>Column Classifier and Chart Data Builder (DataPreview)\<close>

definition columns :: "row_record list \<Rightarrow> string list" where
  "columns data = (case data of [] \<Rightarrow> [] | first # _ \<Rightarrow> Object_keys first)"

text \<open>The test that \<open>numericColumns\<close> applies to one value.\<close>

definition numeric_value :: "cell \<Rightarrow> bool" where
  "numeric_value v = (\<not> isNaN (parseFloat v) \<and> isFinite v)"

definition numericColumns :: "row_record list \<Rightarrow> string list" where
  "numericColumns data =
     (if length data = 0 then []
      else filter (\<lambda>col. list_ex (\<lambda>row. numeric_value (obj_get row col)) data) (columns data))"

definition stringColumns :: "row_record list \<Rightarrow> string list" where
  "stringColumns data =
     (if length data = 0 then []
      else filter (\<lambda>col. col \<notin> set (numericColumns data)) (columns data))"

text \<open>
  \<open>generateChart\<close> with the two selected columns. \<open>None\<close>: the function returns without
  calling \<open>onDataProcess\<close> (a selection is the empty text until the user chooses);
  otherwise the two arguments of \<open>onDataProcess\<close>.
\<close>

definition generateChart ::
  "(real \<Rightarrow> string) \<Rightarrow> row_record list \<Rightarrow> string \<Rightarrow> string \<Rightarrow> (ChartData \<times> ChartConfig) option" where
  "generateChart num_text data selectedXColumn selectedYColumn =
     (if \<not> (selectedXColumn \<noteq> [] \<and> selectedYColumn \<noteq> []) then None
      else Some
        (\<lparr>labels = map (\<lambda>row. js_String num_text (obj_get row selectedXColumn)) data,
          chart_values = map (\<lambda>row. js_or (parseFloat (obj_get row selectedYColumn)) (Fin 0)) data,
          categories = None\<rparr>,
         \<lparr>xColumn = selectedXColumn, yColumn = selectedYColumn, colorScheme = ''blue'',
          showGrid = True, chartHeight = Fin 10\<rparr>))"

text \<open>
  The wording of the specification for the classifier: the value "parses as a finite
  number", with the parse that the Chart Data Builder uses.
\<close>

definition parses_as_finite_number :: "cell \<Rightarrow> bool" where
  "parses_as_finite_number v = (case parseFloat v of Fin _ \<Rightarrow> True | _ \<Rightarrow> False)"

section \<open>Scene Renderer (Chart3D)\<close>

text \<open>
  Of the renderer the bar heights are embedded. The camera handlers compute in double
  precision with the square root and the trigonometric functions of the platform; what
  they guarantee depends on the rounding of those operations, which is outside this
  embedding.
\<close>

subsection \<open>Bar heights\<close>

text \<open>Arithmetic on numbers with the special values (a finite zero stands for \<open>+0\<close>).\<close>

fun js_div :: "jsnum \<Rightarrow> jsnum \<Rightarrow> jsnum" where
  "js_div NaN _ = NaN"
| "js_div _ NaN = NaN"
| "js_div (Fin a) (Fin b) =
     (if b \<noteq> 0 then Fin (a / b) else if a = 0 then NaN else if 0 < a then PInf else NInf)"
| "js_div (Fin a) PInf = Fin 0"
| "js_div (Fin a) NInf = Fin 0"
| "js_div PInf (Fin b) = (if 0 \<le> b then PInf else NInf)"
| "js_div NInf (Fin b) = (if 0 \<le> b then NInf else PInf)"
| "js_div PInf PInf = NaN"
| "js_div PInf NInf = NaN"
| "js_div NInf PInf = NaN"
| "js_div NInf NInf = NaN"

fun js_mul :: "jsnum \<Rightarrow> jsnum \<Rightarrow> jsnum" where
  "js_mul NaN _ = NaN"
| "js_mul _ NaN = NaN"
| "js_mul (Fin a) (Fin b) = Fin (a * b)"
| "js_mul (Fin a) PInf = (if a = 0 then NaN else if 0 < a then PInf else NInf)"
| "js_mul (Fin a) NInf = (if a = 0 then NaN else if 0 < a then NInf else PInf)"
| "js_mul PInf (Fin b) = (if b = 0 then NaN else if 0 < b then PInf else NInf)"
| "js_mul NInf (Fin b) = (if b = 0 then NaN else if 0 < b then NInf else PInf)"
| "js_mul PInf PInf = PInf"
| "js_mul PInf NInf = NInf"
| "js_mul NInf PInf = NInf"
| "js_mul NInf NInf = PInf"

text \<open>\<open>Math.max\<close>: minus infinity for no argument, NaN as soon as one argument is NaN.\<close>

fun js_max :: "jsnum \<Rightarrow> jsnum \<Rightarrow> jsnum" where
  "js_max NaN _ = NaN"
| "js_max _ NaN = NaN"
| "js_max PInf _ = PInf"
| "js_max _ PInf = PInf"
| "js_max NInf b = b"
| "js_max a NInf = a"
| "js_max (Fin a) (Fin b) = Fin (max a b)"

definition Math_max :: "jsnum list \<Rightarrow> jsnum" where
  "Math_max xs = foldl js_max NInf xs"

definition barHeight :: "jsnum \<Rightarrow> jsnum \<Rightarrow> jsnum \<Rightarrow> jsnum" where
  "barHeight v maxValue height_factor = js_mul (js_div v maxValue) height_factor"

text \<open>The height of the box built for each value, in order.\<close>

definition barHeights :: "ChartData \<Rightarrow> ChartConfig \<Rightarrow> jsnum list" where
  "barHeights data config =
     (let maxValue = Math_max (chart_values data)
      in map (\<lambda>v. barHeight v maxValue (chartHeight config)) (chart_values data))"

section \<open>The application on screen\<close>

text \<open>
  The user events and the component that handles each: a file dropped on, or the sample
  button clicked in, the upload component (both are disabled while \<open>isProcessing\<close>); the
  back button and the generate button of the preview, which is rendered when the stage is
  \<open>preview\<close> and there are Row Records; the back button and the controls of the chart
  stage, which is rendered when the stage is \<open>chart\<close> and there is Chart Data. An event
  for a component that is not rendered changes nothing.
\<close>

datatype ui_event =
  DropFile "thrown + workbook" | LoadSample | BackToUpload | GenerateChart string string
  | BackToPreview | Reconfigure reconfiguration

fun ui_step :: "(real \<Rightarrow> string) \<Rightarrow> screen \<Rightarrow> ui_event \<Rightarrow> screen" where
  "ui_step num_text s (DropFile parsed) =
     (case mounted_upload s of
        None \<Rightarrow> s
      | Some fu \<Rightarrow> if isProcessing fu then s else dropFile num_text parsed s)"
| "ui_step num_text s LoadSample =
     (case mounted_upload s of
        None \<Rightarrow> s
      | Some fu \<Rightarrow> if isProcessing fu then s else loadSampleData s)"
| "ui_step num_text s BackToUpload =
     (if currentStep (app_state s) = Preview \<and> rawData (app_state s) \<noteq> []
      then \<lparr>mounted_upload = Some initialFileUpload,
            app_state = handleBackToUpload (app_state s)\<rparr>
      else s)"
| "ui_step num_text s (GenerateChart selectedXColumn selectedYColumn) =
     (if currentStep (app_state s) = Preview \<and> rawData (app_state s) \<noteq> []
      then (case generateChart num_text (rawData (app_state s)) selectedXColumn selectedYColumn of
              None \<Rightarrow> s
            | Some (cd, config) \<Rightarrow> s\<lparr>app_state := handleDataProcess cd config (app_state s)\<rparr>)
      else s)"
| "ui_step num_text s BackToPreview =
     (if currentStep (app_state s) = Chart \<and> chartData (app_state s) \<noteq> None
      then s\<lparr>app_state := handleBackToPreview (app_state s)\<rparr>
      else s)"
| "ui_step num_text s (Reconfigure ev) =
     (if currentStep (app_state s) = Chart \<and> chartData (app_state s) \<noteq> None
      then s\<lparr>app_state := reconfigure ev (app_state s)\<rparr>
      else s)"

definition run_ui :: "(real \<Rightarrow> string) \<Rightarrow> ui_event list \<Rightarrow> screen" where
  "run_ui num_text evs = foldl (ui_step num_text) initial_screen evs"

text \<open>
  What holds of every screen that the user can reach: the upload component is mounted
  exactly at the upload stage, and when it is mounted it is not processing and has no
  success notice (a load that succeeds leaves the upload stage in the same update).
\<close>

definition screen_ok :: "screen \<Rightarrow> bool" where
  "screen_ok s =
     (case mounted_upload s of
        None \<Rightarrow> currentStep (app_state s) \<noteq> Upload
      | Some fu \<Rightarrow> currentStep (app_state s) = Upload \<and> success fu = None \<and> \<not> isProcessing fu)"

section \<open>Example inputs\<close>

text \<open>
  A sheet with a header row whose second cell is empty and whose third is a number, one
  data row that is shorter than the header, two rows without content and one row that
  starts with holes.
\<close>

definition demo_sheet :: "sparse_row list" where
  "demo_sheet =
     [[Some (Str ''Product''), Some (Str ''''), Some (Num (Fin 2024))],
      [Some (Str ''Laptops''), Some (Num (Fin 120))],
      [],
      [Some (Str ''''), None, Some Null],
      [None, None, Some (Num (Fin 7))]]"

text \<open>A workbook whose first sheet has a header row and nothing else.\<close>

definition header_only_workbook :: workbook where
  "header_only_workbook =
     \<lparr>SheetNames = [''Sheet1''],
      Sheets = [(''Sheet1'', [[Some (Str ''Product''), Some (Str ''Q1'')]])]\<rparr>"

text \<open>Two workbooks with the same first sheet and different second sheets.\<close>

definition two_sheet_workbook :: "sparse_row list \<Rightarrow> workbook" where
  "two_sheet_workbook other =
     \<lparr>SheetNames = [''Data'', ''Notes''],
      Sheets = [(''Data'', demo_sheet), (''Notes'', other)]\<rparr>"

text \<open>Row Records with a column of dates written as text, and with a column of zeros.\<close>

definition dated_rows :: "row_record list" where
  "dated_rows = [[(''Date'', Str ''2021-01-05''), (''Sales'', Num (Fin 3))]]"

definition zero_rows :: "row_record list" where
  "zero_rows = [[(''Item'', Str ''a''), (''Count'', Num (Fin 0))]]"

text \<open>
  A sheet whose header row has no cell in its second column, and a sheet with a column
  named \<open>__proto__\<close>; one data row each, with a cell in every column.
\<close>

definition gap_header_sheet :: "sparse_row list" where
  "gap_header_sheet =
     [[Some (Str ''Name''), None, Some (Str ''Age'')],
      [Some (Str ''Ann''), Some (Str ''x''), Some (Num (Fin 30))]]"

definition proto_header_sheet :: "sparse_row list" where
  "proto_header_sheet =
     [[Some (Str ''__proto__''), Some (Str ''A'')],
      [Some (Num (Fin 1)), Some (Num (Fin 2))]]"

section \<open>Workflow Controller: results\<close>

text \<open>
  C7. From the initial state, a file-loaded transition (with any Row Records) followed
  by the back transition of the preview stage gives the initial state again: the stage is
  upload, there are no Row Records and no Chart Data, and the configuration is the
  initial one.
\<close>

theorem upload_preview_upload_roundtrip:
  "handleBackToUpload (handleFileUpload data initialApp) = initialApp"
  by (simp add: handleBackToUpload_def handleFileUpload_def initialApp_def)

text \<open>
  C8. A reconfiguration event (colour scheme, height or grid) changes nothing but the
  Chart Configuration: the stage (chart, when the controls are on screen), the Row
  Records and the Chart Data are what they were; in the configuration the two chosen
  columns are kept and the stored configuration is the old one with the event's field
  replaced.
\<close>

theorem reconfigure_frame:
  "currentStep (reconfigure ev app) = currentStep app \<and>
   rawData (reconfigure ev app) = rawData app \<and>
   chartData (reconfigure ev app) = chartData app \<and>
   xColumn (chartConfig (reconfigure ev app)) = xColumn (chartConfig app) \<and>
   yColumn (chartConfig (reconfigure ev app)) = yColumn (chartConfig app) \<and>
   chartConfig (reconfigure ev app) =
     (case ev of
        ColorSchemeChange v \<Rightarrow> (chartConfig app)\<lparr>colorScheme := v\<rparr>
      | HeightChange v \<Rightarrow> (chartConfig app)\<lparr>chartHeight := v\<rparr>
      | GridChange v \<Rightarrow> (chartConfig app)\<lparr>showGrid := v\<rparr>)"
  by (cases ev)
     (simp_all add: reconfigure_def updateConfig_def setChartConfig_def spread_def
        no_updates_def)

section \<open>Tabular Loader: results\<close>

lemma has_content_iff: "has_content row \<longleftrightarrow> \<not> fully_blank row"
  unfolding has_content_def fully_blank_def list_ex_iff list_all_iff
  by (auto split: option.splits)

lemma length_filter_complement:
  "length (filter P xs) + length (filter (\<lambda>x. \<not> P x) xs) = length xs"
  by (induction xs) simp_all

lemma convert_rows_blank:
  "convert_rows hs rows = map (row_to_obj hs) (filter (\<lambda>r. \<not> fully_blank r) rows)"
proof -
  have "filter has_content rows = filter (\<lambda>r. \<not> fully_blank r) rows"
    by (rule filter_cong) (simp_all add: has_content_iff)
  then show ?thesis by (simp add: convert_rows_def)
qed

lemma length_convert_rows:
  "length (convert_rows hs rows) + length (filter fully_blank rows) = length rows"
  using length_filter_complement [of "\<lambda>r. \<not> fully_blank r" rows]
  by (simp add: convert_rows_blank)

lemma keys_obj_put: "set (Object_keys (obj_put obj k v)) = insert k (set (Object_keys obj))"
  by (induction obj k v rule: obj_put.induct) (auto simp: Object_keys_def)

lemma map_of_obj_put: "map_of (obj_put obj k v) = (map_of obj)(k \<mapsto> v)"
  by (induction obj k v rule: obj_put.induct) (auto simp: fun_eq_iff)

lemma keys_obj_set:
  "set (Object_keys (obj_set obj k v)) =
     (if k = ''__proto__'' then set (Object_keys obj) else insert k (set (Object_keys obj)))"
  by (simp add: obj_set_def keys_obj_put)

lemma keys_fill_columns:
  "set (Object_keys (fill_columns hs i row obj)) =
     set (Object_keys obj) \<union> {h. Some h \<in> set hs \<and> h \<noteq> ''__proto__''}"
  by (induction hs i row obj rule: fill_columns.induct) (auto simp: keys_obj_set)

text \<open>The keys of a Row Record stay distinct, so a lookup finds the one value of a key.\<close>

lemma distinct_obj_put:
  "distinct (Object_keys obj) \<Longrightarrow> distinct (Object_keys (obj_put obj k v))"
proof (induction obj k v rule: obj_put.induct)
  case (1 k v)
  then show ?case by (simp add: Object_keys_def)
next
  case (2 k' v' kvs k v)
  then show ?case
    using keys_obj_put [of kvs k v] by (auto simp: Object_keys_def)
qed

lemma distinct_row_to_obj: "distinct (Object_keys (row_to_obj hs row))"
proof -
  have "distinct (Object_keys obj) \<Longrightarrow> distinct (Object_keys (fill_columns hs i row obj))"
    for i obj
    by (induction hs i row obj rule: fill_columns.induct)
       (simp_all add: obj_set_def distinct_obj_put)
  then show ?thesis by (simp add: row_to_obj_def Object_keys_def)
qed

lemma map_of_fill_columns_absent:
  "Some h \<notin> set hs \<Longrightarrow> map_of (fill_columns hs i row obj) h = map_of obj h"
  by (induction hs i row obj rule: fill_columns.induct)
     (auto simp: obj_set_def map_of_obj_put)

lemma map_of_fill_columns_last:
  "j < length hs \<Longrightarrow> hs ! j = Some h \<Longrightarrow> h \<noteq> ''__proto__'' \<Longrightarrow>
   (\<forall>k<length hs. j < k \<longrightarrow> hs ! k \<noteq> Some h) \<Longrightarrow>
   map_of (fill_columns hs i row obj) h = Some (cell_value row (i + j))"
proof (induction hs i row obj arbitrary: j rule: fill_columns.induct)
  case (1 colIndex row obj)
  then show ?case by simp
next
  case (2 hs colIndex row obj)
  then obtain j' where j: "j = Suc j'" by (cases j) auto
  have "\<forall>k<length hs. j' < k \<longrightarrow> hs ! k \<noteq> Some h"
    using "2.prems"(4) j by fastforce
  then show ?case using 2 j by simp
next
  case (3 header hs colIndex row obj)
  show ?case
  proof (cases j)
    case 0
    then have h: "header = h" using "3.prems" by simp
    have "Some h \<notin> set hs"
    proof
      assume "Some h \<in> set hs"
      then obtain k where "k < length hs" "hs ! k = Some h" by (auto simp: in_set_conv_nth)
      then show False using "3.prems"(4) 0 by (auto dest: spec [of _ "Suc k"])
    qed
    then show ?thesis
      using 0 h "3.prems"(3)
      by (simp add: map_of_fill_columns_absent obj_set_def map_of_obj_put)
  next
    case (Suc j')
    have "\<forall>k<length hs. j' < k \<longrightarrow> hs ! k \<noteq> Some h"
      using "3.prems"(4) Suc by fastforce
    then show ?thesis using 3 Suc by simp
  qed
qed

lemma row_to_obj_keys_eq:
  "set (Object_keys (row_to_obj hs row)) = {h. Some h \<in> set hs \<and> h \<noteq> ''__proto__''}"
  using keys_fill_columns [of hs 0 row "[]"] by (simp add: row_to_obj_def Object_keys_def)

lemma row_to_obj_value:
  "j < length hs \<Longrightarrow> hs ! j = Some h \<Longrightarrow> h \<noteq> ''__proto__'' \<Longrightarrow>
   (\<forall>k<length hs. j < k \<longrightarrow> hs ! k \<noteq> Some h) \<Longrightarrow>
   obj_get (row_to_obj hs row) h = cell_value row j"
  using map_of_fill_columns_last [of j hs h 0 row "[]"]
  by (simp add: row_to_obj_def obj_get_def)

lemma load_rows_Cons:
  "load_rows nt (firstRow # rows) =
     (if convert_rows (headers_of nt firstRow) rows = []
      then Inl (ErrorObj ''No valid data rows found in the file'')
      else Inr (convert_rows (headers_of nt firstRow) rows))"
  by (simp add: load_rows_def Let_def)

text \<open>
  What the loader does for every sheet with at least one row. The Row Records are the
  rows after the header row that are not fully blank, converted in order: their number is
  the number of rows of the sheet minus one for the header row minus the number of fully
  blank rows after it. When that number is zero the loader throws, otherwise it returns
  these Row Records. The keys of every Row Record are the names made from the cells that
  the header row has, except \<open>__proto__\<close>; the value under such a name is the cell of the
  (last) column with that name, or the empty text when the row has no cell there (a hole,
  an index past the end of the row, \<open>undefined\<close> or \<open>null\<close>).
\<close>

lemma loader_row_accounting:
  assumes "jsonData \<noteq> []"
  shows "\<exists>data.
     load_rows num_text jsonData =
       (if data = [] then Inl (ErrorObj ''No valid data rows found in the file'') else Inr data) \<and>
     data = map (row_to_obj (headers_of num_text (hd jsonData)))
              (filter (\<lambda>row. \<not> fully_blank row) (tl jsonData)) \<and>
     length data + 1 + length (filter fully_blank (tl jsonData)) = length jsonData \<and>
     length data = length jsonData - 1 - length (filter fully_blank (tl jsonData)) \<and>
     (\<forall>obj \<in> set data.
        set (Object_keys obj) =
          {h. Some h \<in> set (headers_of num_text (hd jsonData)) \<and> h \<noteq> ''__proto__''}) \<and>
     (\<forall>row j h. j < length (headers_of num_text (hd jsonData)) \<and>
        headers_of num_text (hd jsonData) ! j = Some h \<and> h \<noteq> ''__proto__'' \<and>
        (\<forall>k<length (headers_of num_text (hd jsonData)). j < k \<longrightarrow>
           headers_of num_text (hd jsonData) ! k \<noteq> Some h) \<longrightarrow>
        obj_get (row_to_obj (headers_of num_text (hd jsonData)) row) h =
          (if arr_get row j = Undefined \<or> arr_get row j = Null then Str '''' else arr_get row j))"
proof -
  obtain firstRow rows where js: "jsonData = firstRow # rows"
    using assms by (cases jsonData) auto
  let ?hs = "headers_of num_text firstRow"
  let ?data = "convert_rows ?hs rows"
  have 1: "load_rows num_text jsonData =
       (if ?data = [] then Inl (ErrorObj ''No valid data rows found in the file'') else Inr ?data)"
    by (simp add: js load_rows_Cons)
  have 2: "?data = map (row_to_obj ?hs) (filter (\<lambda>row. \<not> fully_blank row) rows)"
    by (rule convert_rows_blank)
  have 3: "length ?data + 1 + length (filter fully_blank rows) = length jsonData"
    using length_convert_rows [of ?hs rows] by (simp add: js)
  have 4: "\<forall>obj \<in> set ?data. set (Object_keys obj) = {h. Some h \<in> set ?hs \<and> h \<noteq> ''__proto__''}"
    by (auto simp: convert_rows_def row_to_obj_keys_eq)
  have 5: "\<forall>row j h. j < length ?hs \<and> ?hs ! j = Some h \<and> h \<noteq> ''__proto__'' \<and>
        (\<forall>k<length ?hs. j < k \<longrightarrow> ?hs ! k \<noteq> Some h) \<longrightarrow>
        obj_get (row_to_obj ?hs row) h =
          (if arr_get row j = Undefined \<or> arr_get row j = Null then Str '''' else arr_get row j)"
    by (auto simp: row_to_obj_value cell_value_def Let_def)
  show ?thesis
    using 1 2 3 4 5 by (intro exI [of _ ?data]) (simp add: js)
qed

text \<open>
  The example sheet has five rows, two of them fully blank: two Row Records, each with the
  synthesised name of the second column and the text of the numeric third header as keys.
\<close>

lemma loader_row_accounting_example:
  "demo_sheet \<noteq> [] \<and>
   (\<exists>data. load_rows int_text demo_sheet = Inr data \<and> length data = 2 \<and>
      length demo_sheet = 5 \<and> length (filter fully_blank (tl demo_sheet)) = 2 \<and>
      (\<forall>obj \<in> set data. ''Column_2'' \<in> set (Object_keys obj) \<and> ''2024'' \<in> set (Object_keys obj)))"
proof -
  have ne: "demo_sheet \<noteq> []" by (simp add: demo_sheet_def)
  have hs: "headers_of int_text (hd demo_sheet) = [Some ''Product'', Some ''Column_2'', Some ''2024'']"
    by (simp add: demo_sheet_def headers_of_def header_name_def string_of_nat.simps
        digit_char_def String_trim_def is_ws_def int_text_def)
  have bl: "length (filter fully_blank (tl demo_sheet)) = 2"
    by (simp add: demo_sheet_def fully_blank_def)
  have len: "length demo_sheet = 5" by (simp add: demo_sheet_def)
  from loader_row_accounting [OF ne, of int_text]
  obtain data where d:
    "load_rows int_text demo_sheet =
       (if data = [] then Inl (ErrorObj ''No valid data rows found in the file'') else Inr data)"
    "length data + 1 + length (filter fully_blank (tl demo_sheet)) = length demo_sheet"
    "\<forall>obj \<in> set data.
        set (Object_keys obj) =
          {h. Some h \<in> set (headers_of int_text (hd demo_sheet)) \<and> h \<noteq> ''__proto__''}"
    by blast
  have l2: "length data = 2" using d(2) bl len by simp
  then have "data \<noteq> []" by auto
  then have "load_rows int_text demo_sheet = Inr data" using d(1) by simp
  moreover have "\<forall>obj \<in> set data. ''Column_2'' \<in> set (Object_keys obj) \<and> ''2024'' \<in> set (Object_keys obj)"
    using d(3) hs by simp
  ultimately show ?thesis using ne l2 len bl by blast
qed

text \<open>
  C5. The row count is as claimed (\<open>loader_row_accounting\<close> above), but not every Row
  Record has every column key. A column whose header cell is missing is a hole of the
  header array: \<open>firstRow.map\<close> leaves the hole, so the column gets no name (not even a
  placeholder), and \<open>headers.forEach\<close> skips it, so the Row Record has no key for the
  column and the cell of the row in it is dropped. And the assignment to a column named
  \<open>__proto__\<close> creates no key. In the first sheet the row \<open>Ann, x, 30\<close> under the
  header \<open>Name, (empty), Age\<close> becomes a Row Record with the keys \<open>Name\<close> and \<open>Age\<close>
  only; in the second the row \<open>1, 2\<close> under the header \<open>__proto__, A\<close> becomes a Row
  Record with the key \<open>A\<close> only.
\<close>

theorem column_without_key:
  "headers_of int_text (hd gap_header_sheet) = [Some ''Name'', None, Some ''Age''] \<and>
   load_rows int_text gap_header_sheet =
     Inr [[(''Name'', Str ''Ann''), (''Age'', Num (Fin 30))]] \<and>
   headers_of int_text (hd proto_header_sheet) = [Some ''__proto__'', Some ''A''] \<and>
   load_rows int_text proto_header_sheet = Inr [[(''A'', Num (Fin 2))]]"
  by (simp add: gap_header_sheet_def proto_header_sheet_def load_rows_def headers_of_def
      header_name_def String_trim_def is_ws_def convert_rows_def has_content_def
      row_to_obj_def cell_value_def arr_get_def obj_set_def)

section \<open>Upload component: results\<close>





text \<open>
  C10. Only the first worksheet is read: the result of the \<open>try\<close> block is the loader
  applied to the sheet stored under the first sheet name, and two workbooks that have the
  same first sheet name and the same sheet under it give the same result and the same
  state after \<open>processFile\<close>, whatever their other sheets are.
\<close>

theorem first_sheet_only:
  assumes "SheetNames wb = n # ns" "SheetNames wb' = n # ns'"
    and "map_of (Sheets wb) n = map_of (Sheets wb') n"
  shows "try_block num_text (Inr wb) = load_rows num_text (sheet_to_json (map_of (Sheets wb) n)) \<and>
         try_block num_text (Inr wb') = try_block num_text (Inr wb) \<and>
         processFile num_text (Inr wb') st = processFile num_text (Inr wb) st"
  using assms by (simp add: processFile_def try_block_def first_worksheet_def worksheetName_def)

text \<open>
  Two workbooks with the same first sheet and different second sheets load alike.
\<close>

theorem first_sheet_only_witness:
  "SheetNames (two_sheet_workbook []) = ''Data'' # [''Notes''] \<and>
   SheetNames (two_sheet_workbook demo_sheet) = ''Data'' # [''Notes''] \<and>
   map_of (Sheets (two_sheet_workbook [])) ''Data'' = map_of (Sheets (two_sheet_workbook demo_sheet)) ''Data'' \<and>
   map_of (Sheets (two_sheet_workbook [])) ''Notes'' \<noteq> map_of (Sheets (two_sheet_workbook demo_sheet)) ''Notes'' \<and>
   processFile int_text (Inr (two_sheet_workbook demo_sheet)) (initialFileUpload, initialApp) =
   processFile int_text (Inr (two_sheet_workbook [])) (initialFileUpload, initialApp)"
proof -
  have 1: "SheetNames (two_sheet_workbook []) = ''Data'' # [''Notes'']"
    and 2: "SheetNames (two_sheet_workbook demo_sheet) = ''Data'' # [''Notes'']"
    and 3: "map_of (Sheets (two_sheet_workbook [])) ''Data'' =
            map_of (Sheets (two_sheet_workbook demo_sheet)) ''Data''"
    by (simp_all add: two_sheet_workbook_def)
  have 4: "map_of (Sheets (two_sheet_workbook [])) ''Notes'' \<noteq>
           map_of (Sheets (two_sheet_workbook demo_sheet)) ''Notes''"
    by (simp add: two_sheet_workbook_def demo_sheet_def)
  show ?thesis
    using first_sheet_only [OF 1 2 3, of int_text "(initialFileUpload, initialApp)"] 1 2 3 4
    by simp
qed

lemma processFile_one_notice:
  "(error (fst (processFile nt parsed st)) = None) \<noteq> (success (fst (processFile nt parsed st)) = None)"
  by (cases "try_block nt parsed") (simp_all add: processFile_def)

section \<open>Notices: results\<close>

lemma run_processFile_calls:
  "run_calls (processFile_calls nt parsed) st = processFile nt parsed st"
  by (cases "try_block nt parsed")
     (simp_all add: run_calls_def processFile_calls_def processFile_def)

lemma processFile_clears_both_first: "clears_both_first (processFile_calls nt parsed)"
  by (cases "try_block nt parsed") (simp_all add: clears_both_first_def processFile_calls_def)

text \<open>
  While \<open>processFile\<close> runs, also between two of its calls, the component never has both
  notices, if it did not have both before.
\<close>

lemma processFile_states_one_notice:
  assumes "\<not> both_notices (fst st)" and "st' \<in> set (call_states st (processFile_calls nt parsed))"
  shows "\<not> both_notices (fst st')"
  using assms
  by (cases "try_block nt parsed")
     (auto simp: processFile_calls_def both_notices_def notice_shown_def)

lemma screen_ok_initial: "screen_ok initial_screen"
  by (simp add: screen_ok_def initial_screen_def initialApp_def initialFileUpload_def)

lemma screen_ok_dropFile: "screen_ok s \<Longrightarrow> screen_ok (dropFile nt parsed s)"
  by (cases "try_block nt parsed")
     (auto simp: screen_ok_def dropFile_def commit_def processFile_def handleFileUpload_def
        split: option.splits)

lemma screen_ok_loadSampleData: "screen_ok s \<Longrightarrow> screen_ok (loadSampleData s)"
  by (auto simp: screen_ok_def loadSampleData_def commit_def run_calls_def
      loadSampleData_calls_def handleFileUpload_def split: option.splits)

lemma screen_ok_step: "screen_ok s \<Longrightarrow> screen_ok (ui_step nt s ev)"
proof (cases ev)
  case (DropFile parsed)
  assume "screen_ok s"
  then show ?thesis
    using DropFile screen_ok_dropFile [of s nt parsed] by (simp split: option.splits)
next
  case LoadSample
  assume "screen_ok s"
  then show ?thesis
    using LoadSample screen_ok_loadSampleData [of s] by (simp split: option.splits)
next
  case BackToUpload
  assume "screen_ok s"
  then show ?thesis
    using BackToUpload
    by (simp add: screen_ok_def handleBackToUpload_def initialFileUpload_def)
next
  case (GenerateChart x y)
  assume "screen_ok s"
  then show ?thesis
    using GenerateChart
    by (auto simp: screen_ok_def handleDataProcess_def split: option.splits)
next
  case BackToPreview
  assume "screen_ok s"
  then show ?thesis
    using BackToPreview
    by (auto simp: screen_ok_def handleBackToPreview_def split: option.splits)
next
  case (Reconfigure r)
  assume "screen_ok s"
  then show ?thesis
    using Reconfigure
    by (auto simp: screen_ok_def reconfigure_def updateConfig_def setChartConfig_def
        split: option.splits)
qed

lemma screen_ok_foldl: "screen_ok s \<Longrightarrow> screen_ok (foldl (ui_step nt) s evs)"
  by (induction evs arbitrary: s) (simp_all add: screen_ok_step)

lemma screen_ok_run_ui: "screen_ok (run_ui nt evs)"
  unfolding run_ui_def by (rule screen_ok_foldl) (rule screen_ok_initial)

text \<open>
  C6, as amended. On every screen that a sequence of user events reaches, the mounted
  upload component shows at most one of the two notices. \<open>processFile\<close> first clears both
  notices and then sets exactly one, and at no point between its calls are both set.
  \<open>loadSampleData\<close> sets the success notice without clearing; the same update moves the
  application to the preview stage, so the component is unmounted, and the component of a
  later upload stage starts without a notice.
\<close>

theorem notices_on_screen:
  "(case mounted_upload (run_ui num_text evs) of
      None \<Rightarrow> True
    | Some fu \<Rightarrow> \<not> both_notices fu) \<and>
   clears_both_first (processFile_calls num_text parsed) \<and>
   run_calls (processFile_calls num_text parsed) st = processFile num_text parsed st \<and>
   ((error (fst (processFile num_text parsed st)) = None) \<noteq>
    (success (fst (processFile num_text parsed st)) = None)) \<and>
   (\<not> both_notices (fst st) \<longrightarrow>
      (\<forall>st' \<in> set (call_states st (processFile_calls num_text parsed)).
         \<not> both_notices (fst st'))) \<and>
   (mounted_upload s \<noteq> None \<longrightarrow>
      mounted_upload (loadSampleData s) = None \<and>
      currentStep (app_state (loadSampleData s)) = Preview \<and>
      mounted_upload (ui_step num_text (loadSampleData s) BackToUpload) =
        Some initialFileUpload)"
proof -
  have 1: "case mounted_upload (run_ui num_text evs) of
             None \<Rightarrow> True | Some fu \<Rightarrow> \<not> both_notices fu"
    using screen_ok_run_ui [of num_text evs]
    by (auto simp: screen_ok_def both_notices_def notice_shown_def split: option.splits)
  have 5: "\<not> both_notices (fst st) \<longrightarrow>
      (\<forall>st' \<in> set (call_states st (processFile_calls num_text parsed)).
         \<not> both_notices (fst st'))"
    using processFile_states_one_notice [of st _ num_text parsed] by blast
  have 6: "mounted_upload s \<noteq> None \<longrightarrow>
      mounted_upload (loadSampleData s) = None \<and>
      currentStep (app_state (loadSampleData s)) = Preview \<and>
      mounted_upload (ui_step num_text (loadSampleData s) BackToUpload) =
        Some initialFileUpload"
    by (auto simp: loadSampleData_def commit_def run_calls_def loadSampleData_calls_def
        handleFileUpload_def sampleData_def)
  show ?thesis
    using 1 5 6 processFile_clears_both_first [of num_text parsed]
      run_processFile_calls [of num_text parsed st] processFile_one_notice [of num_text parsed st]
    by blast
qed

text \<open>
  After a failed load of a header-only file the error notice is on screen, alone; the
  sample button then leaves the upload stage, and going back shows a component without a
  notice.
\<close>

theorem notices_on_screen_witness:
  "mounted_upload (run_ui int_text [DropFile (Inr header_only_workbook)]) =
     Some \<lparr>isProcessing = False, error = Some ''No valid data rows found in the file'',
           success = None\<rparr> \<and>
   \<not> both_notices \<lparr>isProcessing = False,
       error = Some ''No valid data rows found in the file'', success = None\<rparr> \<and>
   mounted_upload (run_ui int_text [DropFile (Inr header_only_workbook)]) \<noteq> None \<and>
   mounted_upload (loadSampleData (run_ui int_text [DropFile (Inr header_only_workbook)])) = None \<and>
   mounted_upload (ui_step int_text
       (loadSampleData (run_ui int_text [DropFile (Inr header_only_workbook)])) BackToUpload) =
     Some initialFileUpload"
proof -
  have t: "try_block int_text (Inr header_only_workbook) =
     Inl (ErrorObj ''No valid data rows found in the file'')"
    by (simp add: try_block_def header_only_workbook_def first_worksheet_def worksheetName_def
        sheet_to_json_def load_rows_def convert_rows_def)
  have m: "mounted_upload (run_ui int_text [DropFile (Inr header_only_workbook)]) =
     Some \<lparr>isProcessing = False, error = Some ''No valid data rows found in the file'',
           success = None\<rparr>"
    by (simp add: run_ui_def initial_screen_def initialFileUpload_def dropFile_def commit_def
        processFile_def t initialApp_def)
  show ?thesis
    using notices_on_screen [of int_text "[DropFile (Inr header_only_workbook)]"
        "Inr header_only_workbook" "(initialFileUpload, initialApp)"
        "run_ui int_text [DropFile (Inr header_only_workbook)]"] m
    by auto
qed

text \<open>
  C6 as stated fails: not every path that sets a notice clears both notices first. With
  the error notice of a failed load on screen, the calls of \<open>loadSampleData\<close> set the
  success notice and clear nothing. (The component is then unmounted, so no screen shows
  both notices.)
\<close>

theorem sample_path_does_not_clear:
  "mounted_upload (run_ui int_text [DropFile (Inr header_only_workbook)]) =
     Some \<lparr>isProcessing = False, error = Some ''No valid data rows found in the file'',
           success = None\<rparr> \<and>
   loadSampleData_calls =
     [SetSuccess (Some ''Sample data loaded successfully''), OnFileUpload sampleData] \<and>
   \<not> clears_both_first loadSampleData_calls \<and>
   mounted_upload (run_ui int_text [DropFile (Inr header_only_workbook), LoadSample]) = None"
proof -
  have t: "try_block int_text (Inr header_only_workbook) =
     Inl (ErrorObj ''No valid data rows found in the file'')"
    by (simp add: try_block_def header_only_workbook_def first_worksheet_def worksheetName_def
        sheet_to_json_def load_rows_def convert_rows_def)
  show ?thesis
    by (simp add: run_ui_def initial_screen_def initialFileUpload_def dropFile_def commit_def
        processFile_def t initialApp_def loadSampleData_def run_calls_def
        loadSampleData_calls_def handleFileUpload_def clears_both_first_def)
qed

section \<open>Column Classifier, Chart Data Builder and bar heights: results\<close>

lemma js_or_zero: "js_or n (Fin 0) = (if n = NaN then Fin 0 else n)"
  by (simp add: js_or_def)

text \<open>
  C1. With a category column and a value column chosen (both selections non-empty),
  \<open>generateChart\<close> hands over a Chart Data with one label and one value per Row Record,
  in row order: the label is \<open>String\<close> of the row's category cell, the value is
  \<open>parseFloat\<close> of the row's value cell, or 0 when that is NaN. The two sequences have
  the length of the Row Record sequence, so they have the same length.
\<close>

theorem generateChart_one_pair_per_row:
  assumes "selectedXColumn \<noteq> []" and "selectedYColumn \<noteq> []"
  shows "\<exists>cd config. generateChart num_text data selectedXColumn selectedYColumn = Some (cd, config) \<and>
     labels cd = map (\<lambda>row. js_String num_text (obj_get row selectedXColumn)) data \<and>
     chart_values cd =
       map (\<lambda>row. if parseFloat (obj_get row selectedYColumn) = NaN then Fin 0
                   else parseFloat (obj_get row selectedYColumn)) data \<and>
     length (labels cd) = length data \<and>
     length (chart_values cd) = length data \<and>
     length (labels cd) = length (chart_values cd)"
  using assms by (simp add: generateChart_def js_or_zero)

text \<open>
  The sample data with \<open>Product\<close> as category and \<open>Q1\<close> as value.
\<close>

theorem generateChart_one_pair_per_row_witness:
  "''Product'' \<noteq> [] \<and> ''Q1'' \<noteq> [] \<and>
   (\<exists>cd config. generateChart int_text sampleData ''Product'' ''Q1'' = Some (cd, config) \<and>
      labels cd = [''Laptops'', ''Smartphones'', ''Tablets'', ''Headphones'', ''Smartwatches'', ''Cameras''] \<and>
      chart_values cd = [Fin 120, Fin 200, Fin 80, Fin 150, Fin 60, Fin 45])"
proof -
  have x: "''Product'' \<noteq> []" and y: "''Q1'' \<noteq> []" by simp_all
  from generateChart_one_pair_per_row [OF x y, of int_text sampleData]
  obtain cd config where
    "generateChart int_text sampleData ''Product'' ''Q1'' = Some (cd, config)"
    "labels cd = map (\<lambda>row. js_String int_text (obj_get row ''Product'')) sampleData"
    "chart_values cd = map (\<lambda>row. if parseFloat (obj_get row ''Q1'') = NaN then Fin 0
                                      else parseFloat (obj_get row ''Q1'')) sampleData"
    by blast
  then show ?thesis by (simp add: sampleData_def obj_get_def)
qed

text \<open>The test on each kind of value.\<close>

lemma numeric_value_cases:
  "numeric_value (Num n) \<longleftrightarrow> (\<exists>r. n = Fin r)"
  "numeric_value (Str s) \<longleftrightarrow> parseFloat_str s \<noteq> NaN \<and> (\<exists>r. Number_str s = Fin r)"
  "\<not> numeric_value (Bool b)"
  "\<not> numeric_value Null"
  "\<not> numeric_value Undefined"
proof -
  have nan: "parseFloat_str ''true'' = NaN" "parseFloat_str ''false'' = NaN"
    "parseFloat_str ''null'' = NaN" "parseFloat_str ''undefined'' = NaN"
    by (simp_all add: parseFloat_str_def parse_decimal_def trim_start_def is_ws_def is_digit_def)
  show "numeric_value (Num n) \<longleftrightarrow> (\<exists>r. n = Fin r)"
    by (cases n) (simp_all add: numeric_value_def isNaN_def isFinite_def)
  show "numeric_value (Str s) \<longleftrightarrow> parseFloat_str s \<noteq> NaN \<and> (\<exists>r. Number_str s = Fin r)"
    by (cases "Number_str s") (simp_all add: numeric_value_def isNaN_def isFinite_def)
  show "\<not> numeric_value (Bool b)" "\<not> numeric_value Null" "\<not> numeric_value Undefined"
    using nan by (simp_all add: numeric_value_def isNaN_def)
qed

lemma set_columns_filter:
  "set (numericColumns data) =
     {col \<in> set (columns data). \<exists>row \<in> set data. numeric_value (obj_get row col)}"
  by (cases data) (auto simp: numericColumns_def columns_def list_ex_iff)

text \<open>
  C2, as amended. A column is classified numeric if and only if it is a key of the first
  Row Record and at least one row's value for it is numeric as a whole: \<open>parseFloat\<close>
  of the value is not NaN and \<open>Number\<close> of the value is finite. A text of which only a
  prefix is a number does not count. Every other key of the first Row Record is classified
  text. The classification is a function of the Row Records alone, so computing it again
  on the same Row Records gives the same result.
\<close>

theorem classifier_whole_value:
  "(col \<in> set (numericColumns data) \<longleftrightarrow>
      col \<in> set (columns data) \<and>
      (\<exists>row \<in> set data. parseFloat (obj_get row col) \<noteq> NaN \<and>
                         (\<exists>r. js_Number (obj_get row col) = Fin r))) \<and>
   (col \<in> set (stringColumns data) \<longleftrightarrow>
      col \<in> set (columns data) \<and> col \<notin> set (numericColumns data))"
proof -
  have nv: "\<And>v. numeric_value v \<longleftrightarrow> parseFloat v \<noteq> NaN \<and> (\<exists>r. js_Number v = Fin r)"
    by (auto simp: numeric_value_def isNaN_def isFinite_def split: jsnum.splits)
  have "col \<in> set (stringColumns data) \<longleftrightarrow>
      col \<in> set (columns data) \<and> col \<notin> set (numericColumns data)"
    by (cases data) (auto simp: stringColumns_def columns_def numericColumns_def)
  then show ?thesis by (auto simp: set_columns_filter nv)
qed

text \<open>
  In the sample data \<open>Q1\<close> is numeric and \<open>Product\<close> is text.
\<close>

theorem classifier_whole_value_witness:
  "''Q1'' \<in> set (numericColumns sampleData) \<and> ''Product'' \<in> set (stringColumns sampleData)"
proof -
  have c: "columns sampleData = [''Product'', ''Q1'', ''Q2'', ''Q3'', ''Q4'']"
    by (simp add: columns_def sampleData_def Object_keys_def)
  have q: "\<exists>row \<in> set sampleData. parseFloat (obj_get row ''Q1'') \<noteq> NaN \<and>
             (\<exists>r. js_Number (obj_get row ''Q1'') = Fin r)"
    by (simp add: sampleData_def obj_get_def)
  have p: "\<not> (\<exists>row \<in> set sampleData. parseFloat (obj_get row ''Product'') \<noteq> NaN \<and>
             (\<exists>r. js_Number (obj_get row ''Product'') = Fin r))"
    by (simp add: sampleData_def obj_get_def parseFloat_str_def parse_decimal_def trim_start_def
        is_ws_def is_digit_def)
  show ?thesis
    using classifier_whole_value [of "''Q1''" sampleData]
      classifier_whole_value [of "''Product''" sampleData] c q p by simp
qed

text \<open>
  C2 as stated fails: the only value of the column \<open>Date\<close> is the text
  \<open>2021-01-05\<close>, which \<open>parseFloat\<close> parses as the finite number 2021, and the column
  is classified text, not numeric.
\<close>

theorem classifier_prefix_counterexample:
  "''Date'' \<in> set (columns dated_rows) \<and>
   parses_as_finite_number (obj_get (dated_rows ! 0) ''Date'') \<and>
   parseFloat (obj_get (dated_rows ! 0) ''Date'') = Fin 2021 \<and>
   ''Date'' \<notin> set (numericColumns dated_rows) \<and>
   ''Date'' \<in> set (stringColumns dated_rows)"
proof -
  have pf: "parseFloat_str ''2021-01-05'' = Fin 2021"
    by (simp add: parseFloat_str_def parse_decimal_def trim_start_def is_ws_def is_digit_def
        digits_value_def take_exponent_def)
  have nm: "Number_str ''2021-01-05'' = NaN"
    by (simp add: Number_str_def String_trim_def parse_nondecimal_def parse_decimal_def
        is_ws_def is_digit_def digits_value_def take_exponent_def)
  have nc: "numericColumns dated_rows = [''Sales'']"
    by (simp add: numericColumns_def dated_rows_def columns_def Object_keys_def obj_get_def
        numeric_value_def isNaN_def isFinite_def pf nm)
  show ?thesis
    by (simp add: nc stringColumns_def)
       (simp add: dated_rows_def columns_def Object_keys_def obj_get_def
        parses_as_finite_number_def pf)
qed

text \<open>
  C3. Each bar's height is its value divided by the maximum value, times the height
  factor, and the bar of the maximum value has the height factor as its height. When the
  maximum is zero the division is 0 / 0: for a value column that holds the single number
  0, the Chart Data has the value 0, the maximum is 0 and the height of the only bar is
  NaN, not the height factor 10. (\<open>barHeight_normalised\<close> below: with a finite maximum
  other than zero the heights are as stated.)
\<close>

theorem zero_maximum_bar_height:
  "generateChart int_text zero_rows ''Item'' ''Count'' =
     Some (\<lparr>labels = [''a''], chart_values = [Fin 0], categories = None\<rparr>,
           \<lparr>xColumn = ''Item'', yColumn = ''Count'', colorScheme = ''blue'', showGrid = True,
            chartHeight = Fin 10\<rparr>) \<and>
   Math_max [Fin 0] = Fin 0 \<and>
   barHeights \<lparr>labels = [''a''], chart_values = [Fin 0], categories = None\<rparr>
     \<lparr>xColumn = ''Item'', yColumn = ''Count'', colorScheme = ''blue'', showGrid = True,
      chartHeight = Fin 10\<rparr> = [NaN]"
  by (simp add: generateChart_def zero_rows_def obj_get_def js_or_def Math_max_def
      barHeights_def barHeight_def)

lemma barHeight_normalised:
  assumes "Math_max (chart_values data) = Fin m" "m \<noteq> 0" "chartHeight config = Fin h"
    and "i < length (chart_values data)" "chart_values data ! i = Fin v"
  shows "barHeights data config ! i = Fin (v / m * h)"
    and "v = m \<Longrightarrow> barHeights data config ! i = Fin h"
  using assms by (simp_all add: barHeights_def barHeight_def Let_def)

end
